theory Spec2Isabelle
  imports Complex_Main "HOL-Library.Sublist"
begin

section \<open>Shared vocabulary: errors, resources, random draws\<close>

text \<open>
  The repository holds two simulations of the same ward. \<^verbatim>\<open>simulation.py\<close> is the
  engine behind the dashboard (one staff pool, a bed counter, three scenarios, KPIs);
  \<^verbatim>\<open>assets/simulation.py\<close> is the stand-alone script for objective 3 (a bed pool, a
  senior and a junior staff pool, a race between the two, the workload formula).

  Both are written as generators that the discrete-event library resumes. Here every
  generator is cut at its \<^verbatim>\<open>yield\<close> statements: each segment between two suspension points
  is one function on the state of the whole simulation, and the local variables that
  survive a suspension are kept in a per-patient process record. The library's scheduler
  and NumPy's generator are not part of the source, so a run is driven by a list of
  events: each event names the process that is resumed and carries the instant and the
  random draws the libraries would have supplied. The model admits every order of events
  that the scheduler can produce, and some that it cannot (a process resumed later than
  the instant of its grant), so a statement about every run of the model covers every run
  of the program; in the concrete schedules below each process is resumed at the instant
  of its grant, as the scheduler does. Times and durations are real numbers. So are the
  capacities of the engine: it takes the number of beds and the number of staff as it is
  given them, uncast, and the sensitivity analysis of the dashboard passes values that are
  not whole numbers. The capacities of the script are its integer constants.
\<close>

datatype error = ValueError | KeyError | ZeroDivisionError

record resource =
  capacity :: real
  users :: "nat list"
  queue :: "nat list"

text \<open>
  Modelled from the spec: \<^verbatim>\<open>simpy.Resource\<close> (its \<^verbatim>\<open>request\<close>, \<^verbatim>\<open>release\<close> and \<^verbatim>\<open>count\<close>)
  is a library class that the source calls and does not contain. Section 4.2 of the
  specification gives its contract: a request joins the wait queue, the head of the queue
  is granted a unit as soon as fewer units are in use than the capacity, and a release
  frees the unit and then grants the new head of the queue. A request is identified by
  the number of the patient that issued it. The library has no operation that is applied
  to a request without the source calling it.
\<close>

definition trigger_put :: "resource \<Rightarrow> resource" where
  "trigger_put res =
     (case queue res of
        [] \<Rightarrow> res
      | r # rs \<Rightarrow>
          if real (length (users res)) < capacity res
          then res\<lparr>users := users res @ [r], queue := rs\<rparr>
          else res)"

definition request :: "nat \<Rightarrow> resource \<Rightarrow> resource" where
  "request r res = trigger_put (res\<lparr>queue := queue res @ [r]\<rparr>)"

definition release :: "nat \<Rightarrow> resource \<Rightarrow> resource" where
  "release r res = trigger_put (res\<lparr>users := remove1 r (users res)\<rparr>)"

definition res_count :: "resource \<Rightarrow> int" where
  "res_count res = int (length (users res))"

text \<open>Every request a resource holds: the granted ones, then the waiting ones.\<close>

definition requests_of :: "resource \<Rightarrow> nat list" where
  "requests_of res = users res @ queue res"

definition Resource :: "real \<Rightarrow> resource" where
  "Resource c = \<lparr>capacity = c, users = [], queue = []\<rparr>"

text \<open>
  \<^verbatim>\<open>np.random.exponential(scale)\<close> refuses a negative scale with a \<^verbatim>\<open>ValueError\<close> and is
  otherwise \<open>scale\<close> times a standard exponential variate; the variate \<open>e\<close> is an input of
  the model.
\<close>

definition exponential :: "real \<Rightarrow> real \<Rightarrow> error + real" where
  "exponential scale e = (if scale < 0 then Inl ValueError else Inr (scale * e))"

text \<open>The patient names \<^verbatim>\<open>f'P{patient_id}'\<close>: the letter P and the decimal numeral.\<close>

fun str_nat :: "nat \<Rightarrow> string" where
  "str_nat n = (if n < 10 then [''0123456789'' ! n]
                else str_nat (n div 10) @ [''0123456789'' ! (n mod 10)])"

declare str_nat.simps [simp del]

definition patient_name :: "nat \<Rightarrow> string" where
  "patient_name k = CHR ''P'' # str_nat k"

section \<open>The dashboard engine: \<^verbatim>\<open>simulation.py\<close>\<close>

definition MINS_IN_DAY :: real where
  "MINS_IN_DAY = 24 * 60"

record params =
  scenario :: string
  arrival_rate :: real
  num_beds :: real
  num_staff :: real
  simulation_duration :: real
  senior_staff_mix :: real
  senior_service_days :: real
  junior_service_days :: real
  workload_factor_alpha :: real

text \<open>A row of the patient log. \<^verbatim>\<open>np.nan\<close> in a numeric column is \<open>None\<close>.\<close>

record patient_record =
  PatientID :: string
  ArrivalTime :: real
  WaitTime :: "real option"
  TreatmentTime :: "real option"
  TotalTime :: "real option"
  Status :: string
  TreatedBy :: string

text \<open>
  The local variables of \<^verbatim>\<open>Hospital.patient\<close> that are live at a suspension point:
  at \<^verbatim>\<open>yield req\<close> the arrival time; at \<^verbatim>\<open>yield self.env.timeout(treatment_time)\<close> the
  arrival time, the wait, the treatment time, and the instant the timeout is due.
\<close>

datatype proc =
  AwaitingStaff real
| InTreatment real real real real

record hospital =
  now :: real
  staff :: resource
  bed_capacity :: real
  beds_in_use :: int
  patient_log :: "patient_record list"
  occupancy_log :: "(real \<times> int) list"
  patient_id :: nat
  procs :: "nat \<rightharpoonup> proc"

text \<open>
  \<^verbatim>\<open>Hospital.__init__\<close>. The constructor of the staff resource refuses a capacity that is
  not positive with a \<^verbatim>\<open>ValueError\<close>; the bed capacity is a plain number, kept as it is
  given and not checked.
\<close>

definition fresh_ward :: "params \<Rightarrow> hospital" where
  "fresh_ward p =
     \<lparr>now = 0, staff = Resource (num_staff p), bed_capacity = num_beds p,
      beds_in_use = 0, patient_log = [], occupancy_log = [],
      patient_id = 0, procs = Map.empty\<rparr>"

definition Hospital_init :: "params \<Rightarrow> error + hospital" where
  "Hospital_init p = (if num_staff p \<le> 0 then Inl ValueError else Inr (fresh_ward p))"

text \<open>The degradation of the workload scenario, as a function of the load per staff member.\<close>

definition workload_factor :: "real \<Rightarrow> real \<Rightarrow> real" where
  "workload_factor alpha patients_per_staff =
     (if patients_per_staff > alpha then 1 + (patients_per_staff - alpha) else 1)"

text \<open>
  \<^verbatim>\<open>Hospital.get_treatment_time\<close>. \<open>u\<close> is the value of \<^verbatim>\<open>np.random.rand()\<close>, drawn in the
  heterogeneous scenario only, and \<open>e\<close> the standard exponential variate.
\<close>

definition get_treatment_time :: "params \<Rightarrow> hospital \<Rightarrow> real \<Rightarrow> real \<Rightarrow> error + real" where
  "get_treatment_time p h u e =
     (if scenario p = ''Baseline Model (Homogeneous Staff)'' then
        (let base_service_mins = senior_service_days p * MINS_IN_DAY
         in exponential base_service_mins e)
      else if scenario p = ''Experience-Based Model (Heterogeneous Staff)'' then
        (let is_senior = (u < senior_staff_mix p / 100.0);
             service_mins = (if is_senior then senior_service_days p * MINS_IN_DAY
                             else junior_service_days p * MINS_IN_DAY)
         in exponential service_mins e)
      else if scenario p = ''Workload-Dependent Model (Dynamic Service Rates)'' then
        (let base_service_mins = senior_service_days p * MINS_IN_DAY in
         if num_staff p = 0 then Inl ZeroDivisionError
         else
           (let patients_per_staff =
                  real (length (users (staff h))) / num_staff p
            in exponential
                 (base_service_mins *
                    workload_factor (workload_factor_alpha p) patients_per_staff) e))
      else Inr 0)"

definition balked_record :: "string \<Rightarrow> real \<Rightarrow> patient_record" where
  "balked_record name arrival_time =
     \<lparr>PatientID = name, ArrivalTime = arrival_time, WaitTime = None,
      TreatmentTime = None, TotalTime = None, Status = ''Balked (No Beds)'',
      TreatedBy = ''N/A''\<rparr>"

definition discharged_record :: "string \<Rightarrow> real \<Rightarrow> real \<Rightarrow> real \<Rightarrow> real \<Rightarrow> patient_record" where
  "discharged_record name arrival_time wait_time treatment_time t =
     \<lparr>PatientID = name, ArrivalTime = arrival_time, WaitTime = Some wait_time,
      TreatmentTime = Some treatment_time, TotalTime = Some (t - arrival_time),
      Status = ''Discharged'', TreatedBy = ''Staff''\<rparr>"

text \<open>
  \<^verbatim>\<open>Hospital.patient\<close>, first segment: from the start of the body to \<^verbatim>\<open>yield req\<close>, or to
  the \<^verbatim>\<open>return\<close> of a patient that balks.
\<close>

definition patient_arrive :: "nat \<Rightarrow> hospital \<Rightarrow> hospital" where
  "patient_arrive pid h =
     (let arrival_time = now h in
      if real_of_int (beds_in_use h) \<ge> bed_capacity h then
        h\<lparr>patient_log := patient_log h @ [balked_record (patient_name pid) arrival_time]\<rparr>
      else
        h\<lparr>beds_in_use := beds_in_use h + 1,
          occupancy_log := occupancy_log h @ [(now h, beds_in_use h + 1)],
          staff := request pid (staff h),
          procs := (procs h)(pid \<mapsto> AwaitingStaff arrival_time)\<rparr>)"

text \<open>
  Second segment: the process is resumed with its request granted, computes the wait and
  the treatment time and suspends on the timeout.
\<close>

definition patient_granted ::
    "params \<Rightarrow> nat \<Rightarrow> real \<Rightarrow> real \<Rightarrow> real \<Rightarrow> hospital \<Rightarrow> error + hospital" where
  "patient_granted p pid arrival_time u e h =
     (let wait_time = now h - arrival_time in
      case get_treatment_time p h u e of
        Inl err \<Rightarrow> Inl err
      | Inr treatment_time \<Rightarrow>
          Inr (h\<lparr>procs := (procs h)(pid \<mapsto>
                 InTreatment arrival_time wait_time treatment_time
                   (now h + treatment_time))\<rparr>))"

text \<open>
  Third segment: the timeout has fired (the clock stands at the instant it was due); the
  bed is given back, both logs are written, and leaving the \<^verbatim>\<open>with\<close> block releases the
  staff member.
\<close>

definition patient_done :: "nat \<Rightarrow> real \<Rightarrow> real \<Rightarrow> real \<Rightarrow> hospital \<Rightarrow> hospital" where
  "patient_done pid arrival_time wait_time treatment_time h =
     h\<lparr>beds_in_use := beds_in_use h - 1,
       occupancy_log := occupancy_log h @ [(now h, beds_in_use h - 1)],
       patient_log := patient_log h @
         [discharged_record (patient_name pid) arrival_time wait_time treatment_time (now h)],
       staff := release pid (staff h),
       procs := (procs h)(pid := None)\<rparr>"

text \<open>
  The events of a run. \<open>Arrival t\<close>: the timeout of \<^verbatim>\<open>patient_source\<close> fires at \<open>t\<close>, the
  counter is incremented and the new patient runs its first segment. \<open>StaffGranted\<close>: a
  patient whose request is among the users of the staff resource is resumed, with the two
  draws. \<open>TreatmentDone\<close>: the timeout of a patient in treatment fires. The scheduler
  never moves the clock backwards and executes nothing at or after the horizon
  \<^verbatim>\<open>until\<close> of \<^verbatim>\<open>env.run\<close>. A step is \<open>None\<close> when the scheduler cannot execute the event in
  this state, and an error when the resumed segment raises.
\<close>

datatype event =
  Arrival real
| StaffGranted nat real real
| TreatmentDone nat

definition until :: "params \<Rightarrow> real" where
  "until p = simulation_duration p * MINS_IN_DAY"

fun step :: "params \<Rightarrow> hospital \<Rightarrow> event \<Rightarrow> (error + hospital) option" where
  "step p h (Arrival t) =
     (if now h \<le> t \<and> t < until p
      then Some (Inr (patient_arrive (patient_id h + 1)
                        (h\<lparr>now := t, patient_id := patient_id h + 1\<rparr>)))
      else None)"
| "step p h (StaffGranted pid u e) =
     (case procs h pid of
        Some (AwaitingStaff arrival_time) \<Rightarrow>
          if pid \<in> set (users (staff h)) \<and> 0 \<le> u \<and> u < 1 \<and> 0 \<le> e
          then Some (patient_granted p pid arrival_time u e h)
          else None
      | _ \<Rightarrow> None)"
| "step p h (TreatmentDone pid) =
     (case procs h pid of
        Some (InTreatment arrival_time wait_time treatment_time due) \<Rightarrow>
          if now h \<le> due \<and> due < until p
          then Some (Inr (patient_done pid arrival_time wait_time treatment_time
                            (h\<lparr>now := due\<rparr>)))
          else None
      | _ \<Rightarrow> None)"

text \<open>The events are executed in order; an error ends the run.\<close>

fun run_events :: "params \<Rightarrow> hospital \<Rightarrow> event list \<Rightarrow> (error + hospital) option" where
  "run_events p h [] = Some (Inr h)"
| "run_events p h (ev # evs) =
     (case step p h ev of
        None \<Rightarrow> None
      | Some (Inl err) \<Rightarrow> Some (Inl err)
      | Some (Inr h') \<Rightarrow> run_events p h' evs)"


subsection \<open>Processing the results\<close>

text \<open>
  \<^verbatim>\<open>pd.DataFrame(rows)\<close> of a list of dictionaries has the keys of the dictionaries as its
  columns, so the frame of an empty patient log has no column at all (the source itself
  tests \<^verbatim>\<open>col in patient_log_df.columns\<close>), while the occupancy frame is built with its two
  column names given. \<^verbatim>\<open>dropna(subset=['WaitTime'])\<close> looks the column up and raises
  \<^verbatim>\<open>KeyError\<close> when the frame does not have it; otherwise it keeps the rows whose wait is a
  number. \<^verbatim>\<open>mean()\<close> of a column skips the missing values, and is itself missing when
  nothing is left.
\<close>

definition to_days :: "patient_record \<Rightarrow> patient_record" where
  "to_days r =
     r\<lparr>WaitTime := map_option (\<lambda>x. x / MINS_IN_DAY) (WaitTime r),
       TreatmentTime := map_option (\<lambda>x. x / MINS_IN_DAY) (TreatmentTime r),
       TotalTime := map_option (\<lambda>x. x / MINS_IN_DAY) (TotalTime r)\<rparr>"

fun notna :: "'a option \<Rightarrow> bool" where
  "notna None = False"
| "notna (Some v) = True"

fun present_values :: "'a option list \<Rightarrow> 'a list" where
  "present_values [] = []"
| "present_values (None # col) = present_values col"
| "present_values (Some v # col) = v # present_values col"

definition column_mean :: "real option list \<Rightarrow> real option" where
  "column_mean col =
     (let vs = present_values col
      in if vs = [] then None else Some (sum_list vs / real (length vs)))"

definition dropna_WaitTime :: "patient_record list \<Rightarrow> error + patient_record list" where
  "dropna_WaitTime df =
     (if df = [] then Inl KeyError else Inr (filter (\<lambda>r. notna (WaitTime r)) df))"

definition blocking_probability :: "patient_record list \<Rightarrow> real" where
  "blocking_probability df =
     (let total_arrivals = length df in
      if total_arrivals > 0
      then (real (length (filter (\<lambda>r. sublist ''Balked'' (Status r)) df))
              / real total_arrivals) * 100
      else 0)"

text \<open>The loop over the rows of the occupancy frame, with its two accumulators.\<close>

fun patient_minutes :: "real \<Rightarrow> real \<Rightarrow> (real \<times> int) list \<Rightarrow> real" where
  "patient_minutes total_patient_minutes last_time [] = total_patient_minutes"
| "patient_minutes total_patient_minutes last_time ((t, c) # rows) =
     patient_minutes (total_patient_minutes + real_of_int c * (t - last_time)) t rows"

definition average_bed_occupancy :: "params \<Rightarrow> (real \<times> int) list \<Rightarrow> real" where
  "average_bed_occupancy p occupancy =
     (if occupancy \<noteq> [] then
        (let total_patient_minutes = patient_minutes 0 0 occupancy;
             total_minutes = simulation_duration p * MINS_IN_DAY;
             avg_patients = (if total_minutes > 0 then total_patient_minutes / total_minutes
                             else 0)
         in if num_beds p > 0 then (avg_patients / num_beds p) * 100 else 0)
      else 0)"

record kpis =
  Blocking_Probability :: real
  Average_Wait_for_Staff :: "real option"
  Average_Patient_Length_of_Stay :: "real option"
  Total_Patients_Served :: nat
  Average_Bed_Occupancy :: real

record results =
  kpis_of :: kpis
  patient_log_df :: "patient_record list"
  occupancy_df :: "(real \<times> int) list"

text \<open>
  The part of \<^verbatim>\<open>run_hospital_simulation\<close> after \<^verbatim>\<open>env.run\<close>, applied to the two logs the
  ward holds when the run stops. A missing value among the KPIs is \<open>None\<close>.
\<close>

definition process_results :: "params \<Rightarrow> hospital \<Rightarrow> error + results" where
  "process_results p h =
     (let df = map to_days (patient_log h);
          occupancy = occupancy_log h;
          blocking = blocking_probability df
      in case dropna_WaitTime df of
           Inl err \<Rightarrow> Inl err
         | Inr treated_df \<Rightarrow>
             Inr \<lparr>kpis_of =
                    \<lparr>Blocking_Probability = blocking,
                     Average_Wait_for_Staff =
                       (if treated_df \<noteq> [] then column_mean (map WaitTime treated_df)
                        else Some 0),
                     Average_Patient_Length_of_Stay =
                       (if treated_df \<noteq> [] then column_mean (map TotalTime treated_df)
                        else Some 0),
                     Total_Patients_Served =
                       (if treated_df \<noteq> [] then length treated_df else 0),
                     Average_Bed_Occupancy = average_bed_occupancy p occupancy\<rparr>,
                  patient_log_df = df,
                  occupancy_df = occupancy\<rparr>)"

text \<open>
  \<^verbatim>\<open>run_hospital_simulation\<close>: the ward is built, the scheduler executes the events, the
  results are processed. The source has no check of the configuration of its own; what can
  stop a run before its first event is the resource constructor (above), \<^verbatim>\<open>env.run\<close>, which
  refuses a horizon that is not after time 0 with a \<^verbatim>\<open>ValueError\<close>, and the first lines of
  \<^verbatim>\<open>patient_source\<close>: the division \<^verbatim>\<open>MINS_IN_DAY / params['arrival_rate']\<close> and the draw of
  the first inter-arrival time with that scale. For a positive arrival rate every instant
  is a possible arrival time, which is why an arrival event carries its instant. The value
  is \<open>None\<close> when the list is not a sequence of events that the scheduler can execute from
  the initial ward.
\<close>

definition run_hospital_simulation :: "params \<Rightarrow> event list \<Rightarrow> (error + results) option" where
  "run_hospital_simulation p evs =
     (case Hospital_init p of
        Inl err \<Rightarrow> Some (Inl err)
      | Inr hospital_ward \<Rightarrow>
          if until p \<le> 0 then Some (Inl ValueError)
          else if arrival_rate p = 0 then Some (Inl ZeroDivisionError)
          else if arrival_rate p < 0 then Some (Inl ValueError)
          else
            (case run_events p hospital_ward evs of
               None \<Rightarrow> None
             | Some (Inl err) \<Rightarrow> Some (Inl err)
             | Some (Inr h) \<Rightarrow> Some (process_results p h)))"

text \<open>
  The time average that the specification describes, for comparison with the loop above:
  the occupancy is a right-continuous step function on the interval from 0 to the horizon,
  0 before the first sample, and each interval contributes the count in force over it.
\<close>

fun spec_step_integral :: "real \<Rightarrow> int \<Rightarrow> real \<Rightarrow> (real \<times> int) list \<Rightarrow> real" where
  "spec_step_integral horizon c t [] = real_of_int c * (horizon - t)"
| "spec_step_integral horizon c t ((t', c') # rows) =
     real_of_int c * (t' - t) + spec_step_integral horizon c' t' rows"

definition spec_average_occupancy :: "real \<Rightarrow> (real \<times> int) list \<Rightarrow> real" where
  "spec_average_occupancy horizon occupancy = spec_step_integral horizon 0 0 occupancy / horizon"

definition spec_bed_utilization :: "real \<Rightarrow> real \<Rightarrow> (real \<times> int) list \<Rightarrow> real" where
  "spec_bed_utilization horizon bed_cap occupancy =
     spec_average_occupancy horizon occupancy / bed_cap"


section \<open>The script for objective 3: \<^verbatim>\<open>assets/simulation.py\<close>\<close>

definition SIM_TIME_MINUTES :: real where
  "SIM_TIME_MINUTES = 7 * 24 * 60"

definition AVG_TREATMENT_TIME_SENIOR_MINUTES :: real where
  "AVG_TREATMENT_TIME_SENIOR_MINUTES = 2.5 * 24 * 60"

definition AVG_TREATMENT_TIME_JUNIOR_MINUTES :: real where
  "AVG_TREATMENT_TIME_JUNIOR_MINUTES = 3.5 * 24 * 60"

definition NUM_SENIOR_STAFF :: int where
  "NUM_SENIOR_STAFF = 7"

definition NUM_JUNIOR_STAFF :: int where
  "NUM_JUNIOR_STAFF = 8"

definition NUM_BEDS :: int where
  "NUM_BEDS = 20"

definition ALPHA :: real where
  "ALPHA = 1.0"

text \<open>
  A dictionary of the script's patient log; a key that a balked patient's dictionary does
  not have is \<open>None\<close>.
\<close>

record log_entry =
  name :: string
  arrival_time :: real
  waited_for_bed :: "real option"
  waited_for_staff :: "real option"
  treatment_duration :: "real option"
  staff_type :: "string option"
  status :: string

datatype staff_pool = Staff_Senior | Staff_Junior

text \<open>
  The local variables of \<^verbatim>\<open>patient\<close> at its three suspension points: at \<^verbatim>\<open>yield bed_req\<close>
  the arrival time; at the race the arrival time and the time the bed was assigned; at the
  timeout these two, the time staff was assigned, the staff type, the resource whose
  request will be released, and the instant the timeout is due.
\<close>

datatype script_proc =
  AwaitBed real
| AwaitStaff real real
| Treating real real real string staff_pool real

record script =
  clock :: real
  beds :: resource
  staff_senior :: resource
  staff_junior :: resource
  script_log :: "log_entry list"
  script_patient_id :: nat
  script_procs :: "nat \<rightharpoonup> script_proc"

definition script_init :: script where
  "script_init =
     \<lparr>clock = 0, beds = Resource (real_of_int NUM_BEDS),
      staff_senior = Resource (real_of_int NUM_SENIOR_STAFF),
      staff_junior = Resource (real_of_int NUM_JUNIOR_STAFF),
      script_log = [], script_patient_id = 0, script_procs = Map.empty\<rparr>"

text \<open>The workload degradation: \<open>count\<close> is \<^verbatim>\<open>hospital['beds'].count\<close>.\<close>

definition mu_actual :: "real \<Rightarrow> int \<Rightarrow> real" where
  "mu_actual mu_ideal count =
     (let s = NUM_SENIOR_STAFF + NUM_JUNIOR_STAFF;
          n = (if count = 0 then 1 else count)
      in mu_ideal * min 1 (ALPHA * real_of_int s / real_of_int n))"

text \<open>First segment of \<^verbatim>\<open>patient\<close>: up to \<^verbatim>\<open>yield bed_req\<close>, or to the \<^verbatim>\<open>return\<close> after balking.\<close>

definition script_arrive :: "nat \<Rightarrow> script \<Rightarrow> script" where
  "script_arrive pid w =
     (let arrival = clock w in
      if real_of_int (res_count (beds w)) \<ge> capacity (beds w) then
        w\<lparr>script_log := script_log w @
            [\<lparr>name = patient_name pid, arrival_time = arrival, waited_for_bed = None,
              waited_for_staff = None, treatment_duration = None, staff_type = None,
              status = ''Balked''\<rparr>]\<rparr>
      else
        w\<lparr>beds := request pid (beds w),
          script_procs := (script_procs w)(pid \<mapsto> AwaitBed arrival)\<rparr>)"

text \<open>
  Second segment: the bed is assigned; a request is issued to each staff pool and the
  process waits for the first of the two.
\<close>

definition script_bed_assigned :: "nat \<Rightarrow> real \<Rightarrow> script \<Rightarrow> script" where
  "script_bed_assigned pid arrival w =
     (let bed_assign_time = clock w
      in w\<lparr>staff_senior := request pid (staff_senior w),
           staff_junior := request pid (staff_junior w),
           script_procs := (script_procs w)(pid \<mapsto> AwaitStaff arrival bed_assign_time)\<rparr>)"

text \<open>
  Modelled from the spec: the condition \<^verbatim>\<open>senior_req | junior_req\<close> is a library object.
  The process is resumed once one of the two requests has been granted, and the result
  holds the requests that are granted at that moment, so \<^verbatim>\<open>senior_req in result\<close> is the
  test that the senior request is among the users of the senior pool. The source calls
  neither \<^verbatim>\<open>cancel\<close> nor \<^verbatim>\<open>release\<close> on the other request, here or later.

  Third segment: the staff type and its ideal rate, the workload formula, the draw of the
  treatment duration.
\<close>

definition script_staff_assigned ::
    "nat \<Rightarrow> real \<Rightarrow> real \<Rightarrow> real \<Rightarrow> script \<Rightarrow> error + script" where
  "script_staff_assigned pid arrival bed_assign_time e w =
     (let staff_assign_time = clock w;
          senior_in_result = (pid \<in> set (users (staff_senior w)));
          stype = (if senior_in_result then ''Senior'' else ''Junior'');
          staff_resource = (if senior_in_result then Staff_Senior else Staff_Junior);
          mu_ideal = (if senior_in_result then 1.0 / AVG_TREATMENT_TIME_SENIOR_MINUTES
                      else 1.0 / AVG_TREATMENT_TIME_JUNIOR_MINUTES);
          mu = mu_actual mu_ideal (res_count (beds w))
      in if mu = 0 then Inl ZeroDivisionError
         else
           (case exponential (1.0 / mu) e of
              Inl err \<Rightarrow> Inl err
            | Inr duration \<Rightarrow>
                Inr (w\<lparr>script_procs := (script_procs w)(pid \<mapsto>
                       Treating arrival bed_assign_time staff_assign_time stype
                         staff_resource (staff_assign_time + duration))\<rparr>)))"

text \<open>
  Fourth segment: the timeout has fired; the request of the assigned staff type is
  released, the patient is logged, and leaving the \<^verbatim>\<open>with\<close> block releases the bed.
\<close>

definition script_discharge ::
    "nat \<Rightarrow> real \<Rightarrow> real \<Rightarrow> real \<Rightarrow> string \<Rightarrow> staff_pool \<Rightarrow> script \<Rightarrow> script" where
  "script_discharge pid arrival bed_assign_time staff_assign_time stype staff_resource w =
     (let w1 = (case staff_resource of
                  Staff_Senior \<Rightarrow> w\<lparr>staff_senior := release pid (staff_senior w)\<rparr>
                | Staff_Junior \<Rightarrow> w\<lparr>staff_junior := release pid (staff_junior w)\<rparr>);
          treatment_end_time = clock w
      in w1\<lparr>script_log := script_log w @
              [\<lparr>name = patient_name pid, arrival_time = arrival,
                waited_for_bed = Some (bed_assign_time - arrival),
                waited_for_staff = Some (staff_assign_time - bed_assign_time),
                treatment_duration = Some (treatment_end_time - staff_assign_time),
                staff_type = Some stype, status = ''Discharged''\<rparr>],
            beds := release pid (beds w),
            script_procs := (script_procs w)(pid := None)\<rparr>)"

datatype script_event =
  Patient_Arrival real
| Bed_Assigned nat
| Staff_Assigned nat real
| Treatment_End nat

fun script_step :: "script \<Rightarrow> script_event \<Rightarrow> (error + script) option" where
  "script_step w (Patient_Arrival t) =
     (if clock w \<le> t \<and> t < SIM_TIME_MINUTES
      then Some (Inr (script_arrive (script_patient_id w + 1)
                        (w\<lparr>clock := t, script_patient_id := script_patient_id w + 1\<rparr>)))
      else None)"
| "script_step w (Bed_Assigned pid) =
     (case script_procs w pid of
        Some (AwaitBed arrival) \<Rightarrow>
          if pid \<in> set (users (beds w)) then Some (Inr (script_bed_assigned pid arrival w))
          else None
      | _ \<Rightarrow> None)"
| "script_step w (Staff_Assigned pid e) =
     (case script_procs w pid of
        Some (AwaitStaff arrival bed_assign_time) \<Rightarrow>
          if (pid \<in> set (users (staff_senior w)) \<or> pid \<in> set (users (staff_junior w)))
             \<and> 0 \<le> e
          then Some (script_staff_assigned pid arrival bed_assign_time e w)
          else None
      | _ \<Rightarrow> None)"
| "script_step w (Treatment_End pid) =
     (case script_procs w pid of
        Some (Treating arrival bed_assign_time staff_assign_time stype staff_resource due) \<Rightarrow>
          if clock w \<le> due \<and> due < SIM_TIME_MINUTES
          then Some (Inr (script_discharge pid arrival bed_assign_time staff_assign_time
                            stype staff_resource (w\<lparr>clock := due\<rparr>)))
          else None
      | _ \<Rightarrow> None)"

fun script_run :: "script \<Rightarrow> script_event list \<Rightarrow> (error + script) option" where
  "script_run w [] = Some (Inr w)"
| "script_run w (ev # evs) =
     (case script_step w ev of
        None \<Rightarrow> None
      | Some (Inl err) \<Rightarrow> Some (Inl err)
      | Some (Inr w') \<Rightarrow> script_run w' evs)"


section \<open>Properties of logs and wards used in the statements\<close>

text \<open>The resource that \<^verbatim>\<open>staff_resource\<close> refers to.\<close>

definition pool_of :: "script \<Rightarrow> staff_pool \<Rightarrow> resource" where
  "pool_of w pool = (case pool of Staff_Senior \<Rightarrow> staff_senior w | Staff_Junior \<Rightarrow> staff_junior w)"

text \<open>Consecutive samples of an occupancy series differ by one patient.\<close>

fun unit_steps :: "(real \<times> int) list \<Rightarrow> bool" where
  "unit_steps [] = True"
| "unit_steps [s] = True"
| "unit_steps ((t, c) # (t', c') # rest) =
     ((c' = c + 1 \<or> c' = c - 1) \<and> unit_steps ((t', c') # rest))"

definition counts_in_range :: "real \<Rightarrow> (real \<times> int) list \<Rightarrow> bool" where
  "counts_in_range cap samples =
     list_all (\<lambda>(t, c). 0 \<le> c \<and> real_of_int c \<le> cap) samples"

text \<open>
  Every count is less than one above the capacity: the bound that admission keeps when the
  capacity is not a whole number.
\<close>

definition counts_within_one :: "real \<Rightarrow> (real \<times> int) list \<Rightarrow> bool" where
  "counts_within_one cap samples =
     list_all (\<lambda>(t, c). 0 \<le> c \<and> real_of_int c < cap + 1) samples"

text \<open>The count of the last sample; 0 before the first admission.\<close>

definition last_count :: "(real \<times> int) list \<Rightarrow> int" where
  "last_count samples = (if samples = [] then 0 else snd (last samples))"

text \<open>
  What holds of the ward between any two events of a run: the bed counter counts the
  patients whose process is suspended, it is less than one above the capacity, and so is
  every count of the occupancy series, which moves by single steps and ends at the bed
  counter, every staff request
  belongs to a suspended patient, and a patient in treatment holds a staff member.
\<close>

definition ward_inv :: "hospital \<Rightarrow> bool" where
  "ward_inv h \<longleftrightarrow>
     finite (dom (procs h)) \<and>
     beds_in_use h = int (card (dom (procs h))) \<and>
     (beds_in_use h = 0 \<or> real_of_int (beds_in_use h) < bed_capacity h + 1) \<and>
     (\<forall>k y. procs h k = Some y \<longrightarrow> k \<le> patient_id h) \<and>
     counts_within_one (bed_capacity h) (occupancy_log h) \<and>
     unit_steps (occupancy_log h) \<and>
     last_count (occupancy_log h) = beds_in_use h \<and>
     distinct (requests_of (staff h)) \<and>
     set (requests_of (staff h)) \<subseteq> dom (procs h) \<and>
     (\<forall>k a w t d. procs h k = Some (InTreatment a w t d) \<longrightarrow> k \<in> set (users (staff h)))"

text \<open>A ward without beds: nobody is admitted and every record is a balked one.\<close>

definition all_balked :: "hospital \<Rightarrow> bool" where
  "all_balked h \<longleftrightarrow>
     beds_in_use h = 0 \<and> procs h = Map.empty \<and> occupancy_log h = [] \<and>
     length (patient_log h) = patient_id h \<and>
     list_all (\<lambda>r. Status r = ''Balked (No Beds)'') (patient_log h)"

section \<open>Configurations and wards used as concrete inputs\<close>

definition Baseline :: string where
  "Baseline = ''Baseline Model (Homogeneous Staff)''"

definition Experience_Based :: string where
  "Experience_Based = ''Experience-Based Model (Heterogeneous Staff)''"

definition Workload_Dependent :: string where
  "Workload_Dependent = ''Workload-Dependent Model (Dynamic Service Rates)''"

text \<open>The default values of the dashboard's controls, with a horizon of seven days.\<close>

definition example_params :: "string \<Rightarrow> params" where
  "example_params sc =
     \<lparr>scenario = sc, arrival_rate = 10, num_beds = 20, num_staff = 10,
      simulation_duration = 7, senior_staff_mix = 50, senior_service_days = 3,
      junior_service_days = 5, workload_factor_alpha = 3 / 2\<rparr>"

text \<open>The same configuration with no bed at all.\<close>

definition no_beds_params :: params where
  "no_beds_params = (example_params Baseline)\<lparr>num_beds := 0\<rparr>"

text \<open>The script's ward with every one of its twenty beds taken.\<close>

definition full_script :: script where
  "full_script =
     script_init\<lparr>beds := \<lparr>capacity = real_of_int NUM_BEDS, users = [1..<21], queue = []\<rparr>,
                 script_patient_id := 20\<rparr>"

text \<open>
  A schedule of the script: seven patients arrive and start treatment while both staff
  pools have free members; the eighth finds the senior pool full; the first and the
  eighth are discharged.
\<close>

definition eight_patients :: "script_event list" where
  "eight_patients =
     [Patient_Arrival 10, Bed_Assigned 1, Staff_Assigned 1 (1 / 10),
      Patient_Arrival 20, Bed_Assigned 2, Staff_Assigned 2 1,
      Patient_Arrival 30, Bed_Assigned 3, Staff_Assigned 3 1,
      Patient_Arrival 40, Bed_Assigned 4, Staff_Assigned 4 1,
      Patient_Arrival 50, Bed_Assigned 5, Staff_Assigned 5 1,
      Patient_Arrival 60, Bed_Assigned 6, Staff_Assigned 6 1,
      Patient_Arrival 70, Bed_Assigned 7, Staff_Assigned 7 1,
      Patient_Arrival 80, Bed_Assigned 8, Staff_Assigned 8 (1 / 10),
      Treatment_End 1, Treatment_End 8]"


text \<open>
  The script's ward after the first patient arrived at minute 100 and was assigned a bed:
  both staff requests are granted and the patient waits to be resumed.
\<close>

definition waiting_script :: script where
  "waiting_script =
     \<lparr>clock = 100,
      beds = \<lparr>capacity = real_of_int NUM_BEDS, users = [1], queue = []\<rparr>,
      staff_senior = \<lparr>capacity = real_of_int NUM_SENIOR_STAFF, users = [1], queue = []\<rparr>,
      staff_junior = \<lparr>capacity = real_of_int NUM_JUNIOR_STAFF, users = [1], queue = []\<rparr>,
      script_log = [], script_patient_id = 1,
      script_procs = [1 \<mapsto> AwaitStaff 100 100]\<rparr>"

text \<open>The same ward once the patient has been resumed: treated by a senior until minute 460.\<close>

definition in_treatment_script :: script where
  "in_treatment_script =
     waiting_script\<lparr>script_procs := [1 \<mapsto> Treating 100 100 100 ''Senior'' Staff_Senior 460]\<rparr>"

text \<open>
  Two and a half beds: the first value of the dashboard's sensitivity analysis when the
  number of beds is set to five.
\<close>

definition fractional_beds_params :: params where
  "fractional_beds_params = (example_params Baseline)\<lparr>num_beds := 5 / 2\<rparr>"




section \<open>Evaluation of concrete runs\<close>

lemmas resource_defs = Resource_def request_def release_def trigger_put_def res_count_def

lemmas engine_defs =
  run_hospital_simulation_def Hospital_init_def fresh_ward_def patient_arrive_def
  patient_granted_def patient_done_def until_def MINS_IN_DAY_def get_treatment_time_def
  workload_factor_def exponential_def balked_record_def discharged_record_def Let_def
  example_params_def Baseline_def Experience_Based_def Workload_Dependent_def

lemmas results_defs =
  process_results_def dropna_WaitTime_def to_days_def blocking_probability_def
  column_mean_def average_bed_occupancy_def

lemmas script_defs =
  script_init_def script_arrive_def script_bed_assigned_def script_staff_assigned_def
  script_discharge_def NUM_BEDS_def NUM_SENIOR_STAFF_def NUM_JUNIOR_STAFF_def
  SIM_TIME_MINUTES_def mu_actual_def ALPHA_def AVG_TREATMENT_TIME_SENIOR_MINUTES_def
  AVG_TREATMENT_TIME_JUNIOR_MINUTES_def exponential_def Let_def

text \<open>
  One patient under the baseline scenario: admitted at minute 100, granted staff at once,
  treated for 432 minutes, discharged at minute 532.
\<close>

lemma demo_run:
  "run_hospital_simulation (example_params Baseline)
     [Arrival 100, StaffGranted 1 0 (1 / 10), TreatmentDone 1] =
   Some (Inr \<lparr>kpis_of = \<lparr>Blocking_Probability = 0, Average_Wait_for_Staff = Some 0,
                 Average_Patient_Length_of_Stay = Some (3 / 10), Total_Patients_Served = 1,
                 Average_Bed_Occupancy = 25 / 504\<rparr>,
               patient_log_df = [\<lparr>PatientID = ''P1'', ArrivalTime = 100, WaitTime = Some 0,
                 TreatmentTime = Some (3 / 10), TotalTime = Some (3 / 10),
                 Status = ''Discharged'', TreatedBy = ''Staff''\<rparr>],
               occupancy_df = [(100, 1), (532, 0)]\<rparr>)"
  by (simp add: engine_defs results_defs resource_defs patient_name_def str_nat.simps
        sublist_Cons_right)

section \<open>Resources\<close>

lemma trigger_put_set: "set (requests_of (trigger_put r)) = set (requests_of r)"
  by (auto simp: trigger_put_def requests_of_def split: list.splits)

lemma trigger_put_distinct: "distinct (requests_of (trigger_put r)) = distinct (requests_of r)"
  by (auto simp: trigger_put_def requests_of_def split: list.splits)

lemma trigger_put_users: "set (users r) \<subseteq> set (users (trigger_put r))"
  by (auto simp: trigger_put_def split: list.splits)

lemma request_set: "set (requests_of (request k r)) = insert k (set (requests_of r))"
  by (simp add: request_def trigger_put_set) (simp add: requests_of_def)

lemma request_distinct:
  "k \<notin> set (requests_of r) \<Longrightarrow> distinct (requests_of r) \<Longrightarrow> distinct (requests_of (request k r))"
  by (simp add: request_def trigger_put_distinct) (simp add: requests_of_def)

lemma request_users: "set (users r) \<subseteq> set (users (request k r))"
  using trigger_put_users[of "r\<lparr>queue := queue r @ [k]\<rparr>"] by (simp add: request_def)

lemma release_set:
  "distinct (requests_of r) \<Longrightarrow> k \<in> set (users r) \<Longrightarrow>
   set (requests_of (release k r)) = set (requests_of r) - {k}"
  by (simp add: release_def trigger_put_set) (auto simp add: requests_of_def)

lemma release_distinct: "distinct (requests_of r) \<Longrightarrow> distinct (requests_of (release k r))"
  by (simp add: release_def trigger_put_distinct) (auto simp add: requests_of_def)

lemma release_users: "j \<in> set (users r) \<Longrightarrow> j \<noteq> k \<Longrightarrow> j \<in> set (users (release k r))"
  using trigger_put_users[of "r\<lparr>users := remove1 k (users r)\<rparr>"] by (auto simp add: release_def)

section \<open>The invariant of the dashboard engine\<close>

lemma unit_steps_snoc:
  "unit_steps (xs @ [(t, c)]) \<longleftrightarrow>
     unit_steps xs \<and> (xs = [] \<or> c = last_count xs + 1 \<or> c = last_count xs - 1)"
  by (induction xs rule: unit_steps.induct) (auto simp: last_count_def)

lemma counts_within_one_snoc:
  "counts_within_one cap (xs @ [(t, c)]) \<longleftrightarrow>
     counts_within_one cap xs \<and> 0 \<le> c \<and> real_of_int c < cap + 1"
  by (simp add: counts_within_one_def)

lemma counts_within_one_whole:
  assumes "counts_within_one cap xs" and "cap \<in> \<int>"
  shows "counts_in_range cap xs"
proof -
  from assms(2) obtain k where k: "cap = real_of_int k" by (auto elim: Ints_cases)
  have "real_of_int c \<le> cap" if "real_of_int c < cap + 1" for c
  proof -
    from that k have "c < k + 1" by linarith
    then show ?thesis using k by simp
  qed
  with assms(1) show ?thesis
    by (auto simp: counts_within_one_def counts_in_range_def list_all_iff)
qed

lemma last_count_snoc: "last_count (xs @ [(t, c)]) = c"
  by (simp add: last_count_def)

lemma arrive_inv:
  assumes inv: "ward_inv h"
  shows "ward_inv (patient_arrive (Suc (patient_id h)) (h\<lparr>now := t, patient_id := Suc (patient_id h)\<rparr>))"
proof (cases "real_of_int (beds_in_use h) \<ge> bed_capacity h")
  case True
  with inv show ?thesis
    by (fastforce simp: ward_inv_def patient_arrive_def)
next
  case False
  let ?k = "Suc (patient_id h)"
  from inv have fresh: "?k \<notin> dom (procs h)"
    by (fastforce simp: ward_inv_def)
  with inv have fresh': "?k \<notin> set (requests_of (staff h))"
    by (auto simp: ward_inv_def)
  from inv have fin: "finite (dom (procs h))" and card: "beds_in_use h = int (card (dom (procs h)))"
    by (auto simp: ward_inv_def)
  have c: "int (card (insert ?k (dom (procs h)))) = beds_in_use h + 1"
    using fin fresh card by simp
  have nonneg: "0 \<le> beds_in_use h" using card by simp
  show ?thesis
    using inv False fresh fresh' c nonneg request_users[of "staff h" ?k]
    by (auto simp: ward_inv_def patient_arrive_def unit_steps_snoc counts_within_one_snoc
        last_count_snoc request_set request_distinct Let_def)
qed

lemma granted_inv:
  assumes inv: "ward_inv h" and a: "procs h k = Some (AwaitingStaff a)"
    and ku: "k \<in> set (users (staff h))"
    and g: "patient_granted p k a u e h = Inr h'"
  shows "ward_inv h'"
proof -
  have d: "insert k (dom (procs h)) = dom (procs h)" using a by auto
  from g obtain tt where h': "h' = h\<lparr>procs := (procs h)(k \<mapsto> InTreatment a (now h - a) tt (now h + tt))\<rparr>"
    by (auto simp: patient_granted_def Let_def split: sum.splits)
  show ?thesis using inv a d ku unfolding h'
    by (auto simp: ward_inv_def)
qed

lemma done_inv:
  assumes inv: "ward_inv h" and a: "procs h k = Some (InTreatment a w tt due)"
  shows "ward_inv (patient_done k a w tt (h\<lparr>now := due\<rparr>))"
proof -
  from inv have fin: "finite (dom (procs h))" and card: "beds_in_use h = int (card (dom (procs h)))"
    and dist: "distinct (requests_of (staff h))"
    by (auto simp: ward_inv_def)
  from a have kin: "k \<in> dom (procs h)" by auto
  from inv a have ku: "k \<in> set (users (staff h))" by (auto simp: ward_inv_def)
  have pos: "0 < card (dom (procs h))" using fin kin by (auto simp: card_gt_0_iff)
  have c: "int (card (dom (procs h) - {k})) = beds_in_use h - 1"
    using fin kin card pos by (simp add: card_Diff_singleton)
  have rs: "set (requests_of (release k (staff h))) = set (requests_of (staff h)) - {k}"
    using dist ku by (rule release_set)
  have ru: "\<And>j. j \<in> set (users (staff h)) \<Longrightarrow> j \<noteq> k \<Longrightarrow> j \<in> set (users (release k (staff h)))"
    by (rule release_users)
  show ?thesis
    using inv c pos card rs ru release_distinct[OF dist, of k]
    by (auto simp: ward_inv_def patient_done_def unit_steps_snoc counts_within_one_snoc
        last_count_snoc)
qed

lemma step_inv: "ward_inv h \<Longrightarrow> step p h ev = Some (Inr h') \<Longrightarrow> ward_inv h'"
  by (cases ev)
     (auto simp: arrive_inv done_inv split: if_splits option.splits proc.splits
           intro: granted_inv)

lemma run_events_inv: "ward_inv h \<Longrightarrow> run_events p h evs = Some (Inr h') \<Longrightarrow> ward_inv h'"
  by (induction evs arbitrary: h) (auto split: option.splits sum.splits dest: step_inv)

lemma fresh_ward_inv: "ward_inv (fresh_ward p)"
  by (simp add: ward_inv_def fresh_ward_def Resource_def requests_of_def counts_within_one_def
        last_count_def)

lemma step_bed_capacity: "step p h ev = Some (Inr h') \<Longrightarrow> bed_capacity h' = bed_capacity h"
  by (cases ev)
     (auto simp: patient_arrive_def patient_granted_def patient_done_def Let_def
           split: if_splits option.splits proc.splits sum.splits)

lemma run_events_bed_capacity:
  "run_events p h evs = Some (Inr h') \<Longrightarrow> bed_capacity h' = bed_capacity h"
  by (induction evs arbitrary: h) (auto split: option.splits sum.splits dest: step_bed_capacity)

lemma run_from_fresh_ward:
  assumes "run_events p (fresh_ward p) evs = Some (Inr h)"
  shows "ward_inv h" and "bed_capacity h = num_beds p"
  using assms run_events_inv[OF fresh_ward_inv] run_events_bed_capacity[of p "fresh_ward p" evs h]
  by (auto simp: fresh_ward_def)

lemma run_hospital_simulation_Inr:
  assumes "run_hospital_simulation p evs = Some (Inr r)"
  obtains h where "run_events p (fresh_ward p) evs = Some (Inr h)"
    and "process_results p h = Inr r"
    and "0 < num_staff p" and "0 < until p" and "0 < arrival_rate p"
  using assms
  by (auto simp: run_hospital_simulation_def Hospital_init_def
           split: if_splits option.splits sum.splits)

lemma process_results_logs:
  assumes "process_results p h = Inr r"
  shows "occupancy_df r = occupancy_log h" and "patient_log_df r = map to_days (patient_log h)"
  using assms by (auto simp: process_results_def Let_def split: sum.splits)

section \<open>The processing of the results\<close>

lemma to_days_WaitTime: "notna (WaitTime (to_days r)) = notna (WaitTime r)"
  by (cases "WaitTime r") (simp_all add: to_days_def)

lemma to_days_balked: "\<not> notna (WaitTime (to_days (balked_record n t)))"
  by (simp add: to_days_def balked_record_def)

lemma to_days_Status: "Status (to_days x) = Status x"
  by (simp add: to_days_def)

lemma process_results_kpis:
  assumes "process_results p h = Inr r"
  shows "patient_log h \<noteq> []"
    and "Total_Patients_Served (kpis_of r)
           = length (filter (\<lambda>x. notna (WaitTime x)) (map to_days (patient_log h)))"
    and "Average_Wait_for_Staff (kpis_of r)
           = (let treated_df = filter (\<lambda>x. notna (WaitTime x)) (map to_days (patient_log h))
              in if treated_df \<noteq> [] then column_mean (map WaitTime treated_df) else Some 0)"
    and "Average_Patient_Length_of_Stay (kpis_of r)
           = (let treated_df = filter (\<lambda>x. notna (WaitTime x)) (map to_days (patient_log h))
              in if treated_df \<noteq> [] then column_mean (map TotalTime treated_df) else Some 0)"
    and "Blocking_Probability (kpis_of r) = blocking_probability (map to_days (patient_log h))"
  using assms
  by (auto simp: process_results_def dropna_WaitTime_def Let_def filter_map split: if_splits)

lemma process_results_nonempty:
  "patient_log h \<noteq> [] \<Longrightarrow> \<exists>r. process_results p h = Inr r"
  by (simp add: process_results_def dropna_WaitTime_def Let_def)

lemma one_discharged_results:
  "process_results no_beds_params
     ((fresh_ward no_beds_params)\<lparr>patient_log := [discharged_record ''P1'' 100 0 432 532] @ []\<rparr>)
   = Inr \<lparr>kpis_of = \<lparr>Blocking_Probability = 0, Average_Wait_for_Staff = Some 0,
                 Average_Patient_Length_of_Stay = Some (3 / 10), Total_Patients_Served = 1,
                 Average_Bed_Occupancy = 0\<rparr>,
          patient_log_df = [to_days (discharged_record ''P1'' 100 0 432 532)],
          occupancy_df = []\<rparr>"
  by (simp add: no_beds_params_def engine_defs results_defs sublist_Cons_right)

section \<open>A ward without beds\<close>

lemma step_all_balked:
  assumes "bed_capacity h \<le> 0" and "all_balked h" and "step p h ev = Some (Inr h')"
  shows "all_balked h'"
  using assms
  by (cases ev)
     (auto simp: all_balked_def patient_arrive_def balked_record_def split: if_splits)

lemma run_events_all_balked:
  "bed_capacity h \<le> 0 \<Longrightarrow> all_balked h \<Longrightarrow> run_events p h evs = Some (Inr h') \<Longrightarrow> all_balked h'"
proof (induction evs arbitrary: h)
  case Nil
  then show ?case by simp
next
  case (Cons ev evs)
  from Cons.prems(3) obtain h1 where s: "step p h ev = Some (Inr h1)"
    and r: "run_events p h1 evs = Some (Inr h')"
    by (auto split: option.splits sum.splits)
  from s Cons.prems(1) have "bed_capacity h1 \<le> 0" by (simp add: step_bed_capacity)
  moreover from Cons.prems(1,2) s have "all_balked h1" by (rule step_all_balked)
  ultimately show ?case using r by (rule Cons.IH)
qed

lemma fresh_ward_all_balked: "all_balked (fresh_ward p)"
  by (simp add: all_balked_def fresh_ward_def)

section \<open>The bed queue of the script\<close>

lemma script_step_bed_queue:
  assumes "queue (beds w) = []" and "script_step w ev = Some (Inr w')"
  shows "queue (beds w') = []"
  using assms
  by (cases ev)
     (auto simp: script_arrive_def script_bed_assigned_def script_staff_assigned_def
        script_discharge_def resource_defs Let_def
        split: if_splits option.splits script_proc.splits staff_pool.splits sum.splits)

lemma script_run_bed_queue:
  "queue (beds w) = [] \<Longrightarrow> script_run w evs = Some (Inr w') \<Longrightarrow> queue (beds w') = []"
  by (induction evs arbitrary: w)
     (auto split: option.splits sum.splits dest: script_step_bed_queue)

lemma two_arrivals_no_beds:
  "run_events no_beds_params (fresh_ward no_beds_params) [Arrival 100, Arrival 200] =
     Some (Inr ((fresh_ward no_beds_params)
                  \<lparr>now := 200, patient_id := 2,
                    patient_log := [balked_record ''P1'' 100, balked_record ''P2'' 200]\<rparr>))"
  by (simp add: no_beds_params_def engine_defs patient_name_def str_nat.simps)

lemma waiting_script_reached:
  "script_run script_init [Patient_Arrival 100, Bed_Assigned 1] = Some (Inr waiting_script)"
  by (simp add: waiting_script_def script_defs resource_defs)

section \<open>Service rates\<close>





lemma mu_actual_pos:
  assumes "0 < mu" and "0 \<le> cnt"
  shows "0 < mu_actual mu cnt"
proof -
  let ?n = "if cnt = 0 then 1 else cnt"
  have "0 < ?n" using assms by auto
  then have "0 < ALPHA * real_of_int (NUM_SENIOR_STAFF + NUM_JUNIOR_STAFF) / real_of_int ?n"
    by (simp add: ALPHA_def NUM_SENIOR_STAFF_def NUM_JUNIOR_STAFF_def)
  then have "0 < min 1 (ALPHA * real_of_int (NUM_SENIOR_STAFF + NUM_JUNIOR_STAFF) / real_of_int ?n)"
    by (simp add: min_def)
  with assms(1) show ?thesis by (simp add: mu_actual_def Let_def)
qed






lemma script_staff_step:
  assumes a: "script_procs w k = Some (AwaitStaff a b)"
    and g: "k \<in> set (users (staff_senior w)) \<or> k \<in> set (users (staff_junior w))"
    and e: "0 \<le> e"
  shows "\<exists>w' stype pool mean.
           script_step w (Staff_Assigned k e) = Some (Inr w')
           \<and> script_procs w' k =
               Some (Treating a b (clock w) stype pool
                      (clock w + e / mu_actual (1 / mean) (res_count (beds w))))
           \<and> (stype, pool, mean) =
               (if k \<in> set (users (staff_senior w))
                then (''Senior'', Staff_Senior, AVG_TREATMENT_TIME_SENIOR_MINUTES)
                else (''Junior'', Staff_Junior, AVG_TREATMENT_TIME_JUNIOR_MINUTES))"
proof -
  have cnt: "0 \<le> res_count (beds w)" by (simp add: res_count_def)
  have "0 < 1 / AVG_TREATMENT_TIME_SENIOR_MINUTES"
    by (simp add: AVG_TREATMENT_TIME_SENIOR_MINUTES_def)
  from mu_actual_pos[OF this cnt]
  have senior: "0 < mu_actual (1 / AVG_TREATMENT_TIME_SENIOR_MINUTES) (res_count (beds w))" .
  have "0 < 1 / AVG_TREATMENT_TIME_JUNIOR_MINUTES"
    by (simp add: AVG_TREATMENT_TIME_JUNIOR_MINUTES_def)
  from mu_actual_pos[OF this cnt]
  have junior: "0 < mu_actual (1 / AVG_TREATMENT_TIME_JUNIOR_MINUTES) (res_count (beds w))" .
  show ?thesis
  proof (cases "k \<in> set (users (staff_senior w))")
    case True
    with a e senior show ?thesis
      by (simp add: script_staff_assigned_def exponential_def Let_def not_less [symmetric]
            less_imp_le)
  next
    case False
    with a g e junior show ?thesis
      by (simp add: script_staff_assigned_def exponential_def Let_def less_imp_le)
  qed
qed

section \<open>Staff types\<close>

lemma in_treatment_script_reached:
  "script_run script_init [Patient_Arrival 100, Bed_Assigned 1, Staff_Assigned 1 (1 / 10)] =
     Some (Inr in_treatment_script)"
  by (simp add: in_treatment_script_def waiting_script_def script_defs resource_defs)

lemma experience_time:
  assumes "scenario p = Experience_Based"
    and "0 \<le> senior_service_days p" and "0 \<le> junior_service_days p"
  shows "get_treatment_time p h u e =
           Inr ((if u < senior_staff_mix p / 100 then senior_service_days p
                 else junior_service_days p) * MINS_IN_DAY * e)"
  using assms
  by (simp add: get_treatment_time_def Experience_Based_def exponential_def Let_def
        MINS_IN_DAY_def)

lemma script_discharge_step:
  assumes "script_procs w k = Some (Treating a b c stype pool due)"
    and "clock w \<le> due" and "due < SIM_TIME_MINUTES"
  shows "\<exists>w'. script_step w (Treatment_End k) = Some (Inr w')
           \<and> script_log w' = script_log w @
                [\<lparr>name = patient_name k, arrival_time = a, waited_for_bed = Some (b - a),
                  waited_for_staff = Some (c - b), treatment_duration = Some (due - c),
                  staff_type = Some stype, status = ''Discharged''\<rparr>]"
  using assms
  by (cases pool) (simp_all add: script_discharge_def Let_def)

section \<open>Configurations outside the documented ranges\<close>









section \<open>Claims\<close>

text \<open>
  C5, as amended. For every run, every sample of the occupancy series has a count that is
  at least 0 and less than the bed capacity plus one, and the counts of two consecutive
  samples differ by exactly one: each sample is one admission or one discharge. Whenever
  the bed capacity is a whole number every count is therefore between 0 and the capacity.
  This holds of the series in the ward after any number of events, and so of the series
  that a run returns. The engine admits a patient while the beds in use are below the
  capacity it was given, so with a capacity that is not a whole number the count passes
  it: with two and a half beds the third arrival is admitted.
\<close>

theorem occupancy_series_bounds_unit_steps:
  "(run_events p (fresh_ward p) evs = Some (Inr h) \<longrightarrow>
      counts_within_one (num_beds p) (occupancy_log h) \<and> unit_steps (occupancy_log h)
      \<and> (num_beds p \<in> \<int> \<longrightarrow> counts_in_range (num_beds p) (occupancy_log h)))
   \<and> (run_hospital_simulation p evs = Some (Inr r) \<longrightarrow>
      counts_within_one (num_beds p) (occupancy_df r) \<and> unit_steps (occupancy_df r)
      \<and> (num_beds p \<in> \<int> \<longrightarrow> counts_in_range (num_beds p) (occupancy_df r)))"
proof -
  have ward: "counts_within_one (num_beds p) (occupancy_log h') \<and> unit_steps (occupancy_log h')
      \<and> (num_beds p \<in> \<int> \<longrightarrow> counts_in_range (num_beds p) (occupancy_log h'))"
    if run: "run_events p (fresh_ward p) evs = Some (Inr h')" for h'
  proof -
    from run have "ward_inv h'" and "bed_capacity h' = num_beds p"
      by (rule run_from_fresh_ward)+
    then have "counts_within_one (num_beds p) (occupancy_log h')"
      and "unit_steps (occupancy_log h')"
      by (auto simp: ward_inv_def)
    then show ?thesis by (auto intro: counts_within_one_whole)
  qed
  have "counts_within_one (num_beds p) (occupancy_df r) \<and> unit_steps (occupancy_df r)
      \<and> (num_beds p \<in> \<int> \<longrightarrow> counts_in_range (num_beds p) (occupancy_df r))"
    if res: "run_hospital_simulation p evs = Some (Inr r)"
  proof -
    from res obtain h' where run: "run_events p (fresh_ward p) evs = Some (Inr h')"
      and pr: "process_results p h' = Inr r"
      by (rule run_hospital_simulation_Inr)
    from ward[OF run] process_results_logs(1)[OF pr] show ?thesis by simp
  qed
  with ward show ?thesis by blast
qed

theorem occupancy_series_bounds_unit_steps_counterexample:
  "(case run_events fractional_beds_params (fresh_ward fractional_beds_params)
           [Arrival 100, Arrival 200, Arrival 300] of
      Some (Inr h) \<Rightarrow>
        bed_capacity h = 5 / 2 \<and>
        occupancy_log h = [(100, 1), (200, 2), (300, 3)] \<and>
        \<not> counts_in_range (num_beds fractional_beds_params) (occupancy_log h)
    | _ \<Rightarrow> False)
   \<and> (case run_hospital_simulation fractional_beds_params
           [Arrival 100, Arrival 200, Arrival 300, Arrival 400] of
      Some (Inr r) \<Rightarrow>
        map Status (patient_log_df r) = [''Balked (No Beds)''] \<and>
        occupancy_df r = [(100, 1), (200, 2), (300, 3)] \<and>
        \<not> counts_in_range (num_beds fractional_beds_params) (occupancy_df r)
    | _ \<Rightarrow> False)"
  by (simp add: fractional_beds_params_def engine_defs results_defs resource_defs
        counts_in_range_def patient_name_def str_nat.simps)

theorem occupancy_series_bounds_unit_steps_witness:
  "(case run_events (example_params Baseline) (fresh_ward (example_params Baseline))
           [Arrival 100, StaffGranted 1 0 (1 / 10), Arrival 200] of
      Some (Inr h) \<Rightarrow>
        occupancy_log h = [(100, 1), (200, 2)] \<and>
        counts_within_one (num_beds (example_params Baseline)) (occupancy_log h) \<and>
        unit_steps (occupancy_log h) \<and>
        counts_in_range (num_beds (example_params Baseline)) (occupancy_log h)
    | _ \<Rightarrow> False)
   \<and> num_beds (example_params Baseline) \<in> \<int>
   \<and> (case run_hospital_simulation (example_params Baseline)
           [Arrival 100, StaffGranted 1 0 (1 / 10), TreatmentDone 1] of
      Some (Inr r) \<Rightarrow>
        occupancy_df r = [(100, 1), (532, 0)] \<and>
        counts_within_one (num_beds (example_params Baseline)) (occupancy_df r) \<and>
        unit_steps (occupancy_df r) \<and>
        counts_in_range (num_beds (example_params Baseline)) (occupancy_df r)
    | _ \<Rightarrow> False)"
proof -
  obtain h where run: "run_events (example_params Baseline) (fresh_ward (example_params Baseline))
           [Arrival 100, StaffGranted 1 0 (1 / 10), Arrival 200] = Some (Inr h)"
    and log: "occupancy_log h = [(100, 1), (200, 2)]"
    by (simp add: engine_defs resource_defs)
  have whole: "num_beds (example_params Baseline) \<in> \<int>"
    by (simp add: example_params_def)
  note t = occupancy_series_bounds_unit_steps [where p = "example_params Baseline"]
  from t run whole
  have "counts_within_one (num_beds (example_params Baseline)) (occupancy_log h)
      \<and> unit_steps (occupancy_log h)
      \<and> counts_in_range (num_beds (example_params Baseline)) (occupancy_log h)"
    by blast
  with run log have first: "(case run_events (example_params Baseline)
           (fresh_ward (example_params Baseline))
           [Arrival 100, StaffGranted 1 0 (1 / 10), Arrival 200] of
      Some (Inr h) \<Rightarrow>
        occupancy_log h = [(100, 1), (200, 2)] \<and>
        counts_within_one (num_beds (example_params Baseline)) (occupancy_log h) \<and>
        unit_steps (occupancy_log h) \<and>
        counts_in_range (num_beds (example_params Baseline)) (occupancy_log h)
    | _ \<Rightarrow> False)"
    by simp
  obtain r where res: "run_hospital_simulation (example_params Baseline)
           [Arrival 100, StaffGranted 1 0 (1 / 10), TreatmentDone 1] = Some (Inr r)"
    and df: "occupancy_df r = [(100, 1), (532, 0)]"
    using demo_run by simp
  from t res whole
  have "counts_within_one (num_beds (example_params Baseline)) (occupancy_df r)
      \<and> unit_steps (occupancy_df r)
      \<and> counts_in_range (num_beds (example_params Baseline)) (occupancy_df r)"
    by blast
  with res df have second: "(case run_hospital_simulation (example_params Baseline)
           [Arrival 100, StaffGranted 1 0 (1 / 10), TreatmentDone 1] of
      Some (Inr r) \<Rightarrow>
        occupancy_df r = [(100, 1), (532, 0)] \<and>
        counts_within_one (num_beds (example_params Baseline)) (occupancy_df r) \<and>
        unit_steps (occupancy_df r) \<and>
        counts_in_range (num_beds (example_params Baseline)) (occupancy_df r)
    | _ \<Rightarrow> False)"
    by simp
  from first whole second show ?thesis by blast
qed

text \<open>
  C10. A patient that balks is appended to the patient log at arrival, with the wait, the
  treatment time and the total time missing and \<^verbatim>\<open>TreatedBy\<close> set to \<^verbatim>\<open>N/A\<close>. Such a record is
  left out of the mean wait, the mean length of stay and the number of patients served,
  which are computed from the records whose wait is not missing; it counts among the
  arrivals and among the balked patients of the blocking probability.
\<close>

theorem balked_records_logged_and_excluded:
  assumes full: "bed_capacity h \<le> real_of_int (beds_in_use h)"
    and rest: "process_results p (h\<lparr>patient_log := xs @ ys\<rparr>) = Inr r"
  shows "patient_arrive pid h =
           h\<lparr>patient_log := patient_log h @
               [\<lparr>PatientID = patient_name pid, ArrivalTime = now h, WaitTime = None,
                 TreatmentTime = None, TotalTime = None, Status = ''Balked (No Beds)'',
                 TreatedBy = ''N/A''\<rparr>]\<rparr>
         \<and> (\<exists>r'. process_results p (h\<lparr>patient_log := xs @ balked_record n t # ys\<rparr>) = Inr r'
               \<and> Total_Patients_Served (kpis_of r') = Total_Patients_Served (kpis_of r)
               \<and> Average_Wait_for_Staff (kpis_of r') = Average_Wait_for_Staff (kpis_of r)
               \<and> Average_Patient_Length_of_Stay (kpis_of r')
                   = Average_Patient_Length_of_Stay (kpis_of r)
               \<and> Total_Patients_Served (kpis_of r')
                   = length (filter (\<lambda>x. notna (WaitTime x)) (xs @ balked_record n t # ys))
               \<and> Blocking_Probability (kpis_of r')
                   = (real (length (filter (\<lambda>x. sublist ''Balked'' (Status x)) (xs @ ys)) + 1)
                       / real (length (xs @ ys) + 1)) * 100)"
proof -
  let ?b = "balked_record n t"
  let ?h' = "h\<lparr>patient_log := xs @ ?b # ys\<rparr>"
  have arrive: "patient_arrive pid h =
           h\<lparr>patient_log := patient_log h @
               [\<lparr>PatientID = patient_name pid, ArrivalTime = now h, WaitTime = None,
                 TreatmentTime = None, TotalTime = None, Status = ''Balked (No Beds)'',
                 TreatedBy = ''N/A''\<rparr>]\<rparr>"
    using full by (simp add: patient_arrive_def balked_record_def)
  have treated: "filter (\<lambda>x. notna (WaitTime x)) (map to_days (xs @ ?b # ys))
               = filter (\<lambda>x. notna (WaitTime x)) (map to_days (xs @ ys))"
    by (simp add: to_days_balked)
  have count: "length (filter (\<lambda>x. notna (WaitTime x)) (map to_days (xs @ ?b # ys)))
             = length (filter (\<lambda>x. notna (WaitTime x)) (xs @ ?b # ys))"
    by (simp add: filter_map comp_def to_days_WaitTime)
  have blocking: "blocking_probability (map to_days (xs @ ?b # ys))
     = (real (length (filter (\<lambda>x. sublist ''Balked'' (Status x)) (xs @ ys)) + 1)
          / real (length (xs @ ys) + 1)) * 100"
    by (simp add: blocking_probability_def filter_map comp_def to_days_Status Let_def
          balked_record_def)
  obtain r' where r': "process_results p ?h' = Inr r'"
    using process_results_nonempty[of ?h' p] by auto
  note k = process_results_kpis[OF rest] and k' = process_results_kpis[OF r']
  have "Total_Patients_Served (kpis_of r') = Total_Patients_Served (kpis_of r)"
    using k(2) k'(2) treated by simp
  moreover have "Average_Wait_for_Staff (kpis_of r') = Average_Wait_for_Staff (kpis_of r)"
    using k(3) k'(3) treated by simp
  moreover have "Average_Patient_Length_of_Stay (kpis_of r')
                   = Average_Patient_Length_of_Stay (kpis_of r)"
    using k(4) k'(4) treated by simp
  moreover have "Total_Patients_Served (kpis_of r')
                   = length (filter (\<lambda>x. notna (WaitTime x)) (xs @ ?b # ys))"
    using k'(2) count by simp
  moreover have "Blocking_Probability (kpis_of r')
                   = (real (length (filter (\<lambda>x. sublist ''Balked'' (Status x)) (xs @ ys)) + 1)
                       / real (length (xs @ ys) + 1)) * 100"
    using k'(5) blocking by simp
  ultimately show ?thesis using arrive r' by blast
qed


theorem balked_records_logged_and_excluded_witness:
  "bed_capacity (fresh_ward no_beds_params)
      \<le> real_of_int (beds_in_use (fresh_ward no_beds_params))
   \<and> patient_log (patient_arrive 2 (fresh_ward no_beds_params)) =
        [\<lparr>PatientID = ''P2'', ArrivalTime = 0, WaitTime = None, TreatmentTime = None,
          TotalTime = None, Status = ''Balked (No Beds)'', TreatedBy = ''N/A''\<rparr>]
   \<and> (\<exists>r'. process_results no_beds_params
              ((fresh_ward no_beds_params)
                 \<lparr>patient_log := [discharged_record ''P1'' 100 0 432 532]
                                  @ balked_record ''P2'' 700 # []\<rparr>) = Inr r'
          \<and> Total_Patients_Served (kpis_of r') = 1
          \<and> Average_Wait_for_Staff (kpis_of r') = Some 0
          \<and> Average_Patient_Length_of_Stay (kpis_of r') = Some (3 / 10)
          \<and> Blocking_Probability (kpis_of r') = 50)"
proof -
  have full: "bed_capacity (fresh_ward no_beds_params)
      \<le> real_of_int (beds_in_use (fresh_ward no_beds_params))"
    by (simp add: fresh_ward_def no_beds_params_def)
  from balked_records_logged_and_excluded [OF full one_discharged_results, of 2 "''P2''" 700]
  show ?thesis
    using full
    by (auto simp: fresh_ward_def no_beds_params_def patient_name_def str_nat.simps
          discharged_record_def sublist_Cons_right)
qed

text \<open>
  C1. The time-weighted average occupancy is the integral of the occupancy step function
  over the horizon divided by the horizon, each interval between two samples weighted with
  the earlier sample's count, and the bed utilization is this average divided by the bed
  capacity. The loop of the source weights each interval with the count of the sample that
  ends it, and never adds the interval from the last sample to the horizon: for a patient
  in a bed from minute 100 to minute 532 it adds up 100 patient-minutes where the step
  function has 432, and the KPI is 25/504 per cent where the utilization is 3/14 per cent.
\<close>

theorem average_occupancy_not_time_weighted:
  "(case run_hospital_simulation (example_params Baseline)
           [Arrival 100, StaffGranted 1 0 (1 / 10), TreatmentDone 1] of
      Some (Inr r) \<Rightarrow>
        occupancy_df r = [(100, 1), (532, 0)] \<and>
        patient_minutes 0 0 (occupancy_df r) = 100 \<and>
        spec_step_integral (until (example_params Baseline)) 0 0 (occupancy_df r) = 432 \<and>
        Average_Bed_Occupancy (kpis_of r) = 25 / 504 \<and>
        spec_bed_utilization (until (example_params Baseline))
          (num_beds (example_params Baseline)) (occupancy_df r) * 100 = 3 / 14
    | _ \<Rightarrow> False)"
  unfolding demo_run
  by (simp add: spec_bed_utilization_def spec_average_occupancy_def until_def MINS_IN_DAY_def
        example_params_def)

text \<open>
  C8. A run without arrivals is to yield KPIs that are all zero. In the source the frame
  of an empty patient log has no column, and dropping the rows without a wait raises
  \<^verbatim>\<open>KeyError\<close>: the run returns no KPI at all. The results are processed without an error
  exactly when the patient log has a record.
\<close>

theorem zero_arrival_run_raises:
  "run_hospital_simulation p [] =
     Some (Inl (if num_staff p \<le> 0 \<or> until p \<le> 0 then ValueError
                else if arrival_rate p = 0 then ZeroDivisionError
                else if arrival_rate p < 0 then ValueError
                else KeyError))
   \<and> (process_results p h = Inl KeyError) = (patient_log h = [])
   \<and> run_hospital_simulation (example_params Baseline) [] = Some (Inl KeyError)"
  by (simp add: run_hospital_simulation_def Hospital_init_def fresh_ward_def process_results_def
        dropna_WaitTime_def Let_def example_params_def until_def MINS_IN_DAY_def)

text \<open>
  C2. After the race between the two staff pools, the request that was not chosen is to be
  withdrawn and no staff member is to be held beyond the discharge. The script issues both
  requests and releases only the one it chose. The first patient, who finds both pools
  free, is granted both requests, is treated by a senior, and after the discharge still
  holds a junior. In the schedule of eight patients the eighth is treated by a junior while
  its senior request waits; the request is granted when the first patient leaves, and
  after the eighth patient's own discharge it still holds that senior, as the first seven
  patients' requests hold seven of the eight juniors.
\<close>

theorem losing_request_never_released:
  "(case script_run script_init
           [Patient_Arrival 100, Bed_Assigned 1, Staff_Assigned 1 (1 / 10), Treatment_End 1] of
      Some (Inr w) \<Rightarrow>
        map name (script_log w) = [''P1''] \<and>
        map status (script_log w) = [''Discharged''] \<and>
        map staff_type (script_log w) = [Some ''Senior''] \<and>
        script_procs w 1 = None \<and>
        users (beds w) = [] \<and>
        users (staff_senior w) = [] \<and>
        users (staff_junior w) = [1] \<and>
        res_count (staff_junior w) = 1
    | _ \<Rightarrow> False)
   \<and> (case script_run script_init eight_patients of
      Some (Inr w) \<Rightarrow>
        map name (script_log w) = [''P1'', ''P8''] \<and>
        map staff_type (script_log w) = [Some ''Senior'', Some ''Junior''] \<and>
        script_procs w 8 = None \<and>
        users (staff_senior w) = [2, 3, 4, 5, 6, 7, 8] \<and>
        queue (staff_senior w) = [] \<and>
        users (staff_junior w) = [1, 2, 3, 4, 5, 6, 7]
    | _ \<Rightarrow> False)"
  by (simp add: eight_patients_def script_defs resource_defs patient_name_def str_nat.simps)

text \<open>
  C4. A patient balks exactly when the beds in use are at least the bed capacity at the
  instant of arrival. A patient that balks is logged at once and touches neither a bed nor
  a queue; any other patient takes exactly one bed, at once: in the engine the bed counter
  goes up by one, in the script the patient's request joins the users of the bed pool and
  the bed queue stays empty throughout a run. With a bed capacity of 0 every arrival of
  every run balks: each arrival has its record, every record is a balked one, and no
  patient is ever admitted.
\<close>

theorem balking_iff_beds_full:
  "(bed_capacity h1 \<le> real_of_int (beds_in_use h1) \<longrightarrow>
      patient_arrive pid h1 =
        h1\<lparr>patient_log := patient_log h1 @ [balked_record (patient_name pid) (now h1)]\<rparr>)
   \<and> (real_of_int (beds_in_use h2) < bed_capacity h2 \<longrightarrow>
      beds_in_use (patient_arrive pid h2) = beds_in_use h2 + 1
      \<and> patient_log (patient_arrive pid h2) = patient_log h2
      \<and> procs (patient_arrive pid h2) pid = Some (AwaitingStaff (now h2)))
   \<and> (capacity (beds w1) \<le> real_of_int (res_count (beds w1)) \<longrightarrow>
      script_arrive pid w1 =
        w1\<lparr>script_log := script_log w1 @
            [\<lparr>name = patient_name pid, arrival_time = clock w1, waited_for_bed = None,
              waited_for_staff = None, treatment_duration = None, staff_type = None,
              status = ''Balked''\<rparr>]\<rparr>)
   \<and> (script_run script_init sevs = Some (Inr w2) \<and> real_of_int (res_count (beds w2)) < capacity (beds w2) \<longrightarrow>
      users (beds (script_arrive pid w2)) = users (beds w2) @ [pid]
      \<and> queue (beds (script_arrive pid w2)) = []
      \<and> script_log (script_arrive pid w2) = script_log w2
      \<and> script_procs (script_arrive pid w2) pid = Some (AwaitBed (clock w2)))
   \<and> (num_beds p = 0 \<and> run_events p (fresh_ward p) evs = Some (Inr h) \<longrightarrow>
      beds_in_use h = 0 \<and> occupancy_log h = []
      \<and> length (patient_log h) = patient_id h
      \<and> list_all (\<lambda>r. Status r = ''Balked (No Beds)'') (patient_log h))"
proof -
  have a1: "bed_capacity h1 \<le> real_of_int (beds_in_use h1) \<longrightarrow>
      patient_arrive pid h1 =
        h1\<lparr>patient_log := patient_log h1 @ [balked_record (patient_name pid) (now h1)]\<rparr>"
    by (simp add: patient_arrive_def)
  have a2: "real_of_int (beds_in_use h2) < bed_capacity h2 \<longrightarrow>
      beds_in_use (patient_arrive pid h2) = beds_in_use h2 + 1
      \<and> patient_log (patient_arrive pid h2) = patient_log h2
      \<and> procs (patient_arrive pid h2) pid = Some (AwaitingStaff (now h2))"
    by (simp add: patient_arrive_def Let_def)
  have b1: "capacity (beds w1) \<le> real_of_int (res_count (beds w1)) \<longrightarrow>
      script_arrive pid w1 =
        w1\<lparr>script_log := script_log w1 @
            [\<lparr>name = patient_name pid, arrival_time = clock w1, waited_for_bed = None,
              waited_for_staff = None, treatment_duration = None, staff_type = None,
              status = ''Balked''\<rparr>]\<rparr>"
    by (simp add: script_arrive_def)
  have b2: "script_run script_init sevs = Some (Inr w2) \<and> real_of_int (res_count (beds w2)) < capacity (beds w2) \<longrightarrow>
      users (beds (script_arrive pid w2)) = users (beds w2) @ [pid]
      \<and> queue (beds (script_arrive pid w2)) = []
      \<and> script_log (script_arrive pid w2) = script_log w2
      \<and> script_procs (script_arrive pid w2) pid = Some (AwaitBed (clock w2))"
  proof
    assume h: "script_run script_init sevs = Some (Inr w2) \<and> real_of_int (res_count (beds w2)) < capacity (beds w2)"
    have "queue (beds script_init) = []" by (simp add: script_init_def Resource_def)
    with h have "queue (beds w2) = []" by (auto dest: script_run_bed_queue)
    with h show "users (beds (script_arrive pid w2)) = users (beds w2) @ [pid]
      \<and> queue (beds (script_arrive pid w2)) = []
      \<and> script_log (script_arrive pid w2) = script_log w2
      \<and> script_procs (script_arrive pid w2) pid = Some (AwaitBed (clock w2))"
      by (simp add: script_arrive_def resource_defs Let_def)
  qed
  have c: "num_beds p = 0 \<and> run_events p (fresh_ward p) evs = Some (Inr h) \<longrightarrow>
      beds_in_use h = 0 \<and> occupancy_log h = []
      \<and> length (patient_log h) = patient_id h
      \<and> list_all (\<lambda>r. Status r = ''Balked (No Beds)'') (patient_log h)"
  proof
    assume h: "num_beds p = 0 \<and> run_events p (fresh_ward p) evs = Some (Inr h)"
    then have "bed_capacity (fresh_ward p) \<le> 0" by (simp add: fresh_ward_def)
    from this fresh_ward_all_balked have "all_balked h"
      using h by (blast intro: run_events_all_balked)
    then show "beds_in_use h = 0 \<and> occupancy_log h = []
      \<and> length (patient_log h) = patient_id h
      \<and> list_all (\<lambda>r. Status r = ''Balked (No Beds)'') (patient_log h)"
      by (simp add: all_balked_def)
  qed
  from a1 a2 b1 b2 c show ?thesis by blast
qed

theorem balking_iff_beds_full_witness:
  "bed_capacity (fresh_ward no_beds_params)
      \<le> real_of_int (beds_in_use (fresh_ward no_beds_params))
   \<and> patient_log (patient_arrive 1 (fresh_ward no_beds_params)) = [balked_record ''P1'' 0]
   \<and> real_of_int (beds_in_use (fresh_ward (example_params Baseline)))
        < bed_capacity (fresh_ward (example_params Baseline))
   \<and> beds_in_use (patient_arrive 1 (fresh_ward (example_params Baseline))) = 1
   \<and> capacity (beds full_script) \<le> real_of_int (res_count (beds full_script))
   \<and> map status (script_log (script_arrive 1 full_script)) = [''Balked'']
   \<and> beds (script_arrive 1 full_script) = beds full_script
   \<and> script_run script_init [] = Some (Inr script_init)
   \<and> real_of_int (res_count (beds script_init)) < capacity (beds script_init)
   \<and> users (beds (script_arrive 1 script_init)) = [1]
   \<and> num_beds no_beds_params = 0
   \<and> map_option (map_sum id (map Status \<circ> patient_log))
        (run_events no_beds_params (fresh_ward no_beds_params) [Arrival 100, Arrival 200])
      = Some (Inr [''Balked (No Beds)'', ''Balked (No Beds)''])"
proof -
  have h1: "bed_capacity (fresh_ward no_beds_params)
      \<le> real_of_int (beds_in_use (fresh_ward no_beds_params))"
    by (simp add: fresh_ward_def no_beds_params_def)
  have h2: "real_of_int (beds_in_use (fresh_ward (example_params Baseline)))
        < bed_capacity (fresh_ward (example_params Baseline))"
    by (simp add: fresh_ward_def example_params_def)
  have w1: "capacity (beds full_script) \<le> real_of_int (res_count (beds full_script))"
    by (simp add: full_script_def script_init_def NUM_BEDS_def res_count_def)
  have w2: "script_run script_init [] = Some (Inr script_init)
            \<and> real_of_int (res_count (beds script_init)) < capacity (beds script_init)"
    by (simp add: script_init_def NUM_BEDS_def res_count_def Resource_def)
  have c: "num_beds no_beds_params = 0 \<and>
           run_events no_beds_params (fresh_ward no_beds_params) [Arrival 100, Arrival 200] =
             Some (Inr ((fresh_ward no_beds_params)
                  \<lparr>now := 200, patient_id := 2,
                    patient_log := [balked_record ''P1'' 100, balked_record ''P2'' 200]\<rparr>))"
    using two_arrivals_no_beds by (simp add: no_beds_params_def example_params_def)
  note t = balking_iff_beds_full [of "fresh_ward no_beds_params" 1
      "fresh_ward (example_params Baseline)" full_script "[]" script_init no_beds_params
      "[Arrival 100, Arrival 200]"
      "(fresh_ward no_beds_params)
                  \<lparr>now := 200, patient_id := 2,
                    patient_log := [balked_record ''P1'' 100, balked_record ''P2'' 200]\<rparr>"]
  from t h1 have r1: "patient_log (patient_arrive 1 (fresh_ward no_beds_params)) = [balked_record ''P1'' 0]"
    by (simp add: fresh_ward_def patient_name_def str_nat.simps)
  from t h2 have r2: "beds_in_use (patient_arrive 1 (fresh_ward (example_params Baseline))) = 1"
    by (simp add: fresh_ward_def)
  from t w1 have r3: "map status (script_log (script_arrive 1 full_script)) = [''Balked'']
     \<and> beds (script_arrive 1 full_script) = beds full_script"
    by (simp add: full_script_def script_init_def)
  from t w2 have r4: "users (beds (script_arrive 1 script_init)) = [1]"
    by (simp add: script_init_def Resource_def)
  have r5: "map_option (map_sum id (map Status \<circ> patient_log))
        (run_events no_beds_params (fresh_ward no_beds_params) [Arrival 100, Arrival 200])
      = Some (Inr [''Balked (No Beds)'', ''Balked (No Beds)''])"
    using c by (simp add: balked_record_def)
  from h1 h2 w1 w2 c r1 r2 r3 r4 r5 show ?thesis by simp
qed




text \<open>
  C9, as amended. In the script the staff type of a patient is Senior when the senior
  request is among the granted ones at the moment the patient is resumed and Junior
  otherwise; the request of that type has been granted, the ideal rate is the one of that
  type, and the type is written into the patient's record at discharge. In the
  heterogeneous scenario of the engine there is one staff pool and no staff type is
  granted: the ideal service time is the senior one when the uniform draw is below the
  senior staff mix and the junior one otherwise, and every discharged patient's record
  names \<^verbatim>\<open>Staff\<close> as the one who treated.
\<close>

theorem staff_type_and_ideal_rate:
  "(script_procs w k = Some (AwaitStaff a b)
    \<and> (k \<in> set (users (staff_senior w)) \<or> k \<in> set (users (staff_junior w))) \<and> 0 \<le> e
     \<longrightarrow> (\<exists>w' stype pool mean.
            script_step w (Staff_Assigned k e) = Some (Inr w')
            \<and> script_procs w' k =
                Some (Treating a b (clock w) stype pool
                       (clock w + e / mu_actual (1 / mean) (res_count (beds w))))
            \<and> (stype, pool, mean) =
                (if k \<in> set (users (staff_senior w))
                 then (''Senior'', Staff_Senior, AVG_TREATMENT_TIME_SENIOR_MINUTES)
                 else (''Junior'', Staff_Junior, AVG_TREATMENT_TIME_JUNIOR_MINUTES))
            \<and> k \<in> set (users (pool_of w pool))))
   \<and> (script_procs w2 k = Some (Treating a b c stype pool due)
       \<and> clock w2 \<le> due \<and> due < SIM_TIME_MINUTES
     \<longrightarrow> (\<exists>w'. script_step w2 (Treatment_End k) = Some (Inr w')
            \<and> script_log w' = script_log w2 @
                [\<lparr>name = patient_name k, arrival_time = a, waited_for_bed = Some (b - a),
                  waited_for_staff = Some (c - b), treatment_duration = Some (due - c),
                  staff_type = Some stype, status = ''Discharged''\<rparr>]))
   \<and> (scenario p = Experience_Based
       \<and> 0 \<le> senior_service_days p \<and> 0 \<le> junior_service_days p
     \<longrightarrow> get_treatment_time p h u e =
           Inr ((if u < senior_staff_mix p / 100 then senior_service_days p
                 else junior_service_days p) * MINS_IN_DAY * e))
   \<and> patient_log (patient_done k a wt tt h) =
       patient_log h @ [discharged_record (patient_name k) a wt tt (now h)]
   \<and> TreatedBy (discharged_record nm a wt tt t) = ''Staff''"
proof -
  have s1: "script_procs w k = Some (AwaitStaff a b)
    \<and> (k \<in> set (users (staff_senior w)) \<or> k \<in> set (users (staff_junior w))) \<and> 0 \<le> e
     \<longrightarrow> (\<exists>w' stype pool mean.
            script_step w (Staff_Assigned k e) = Some (Inr w')
            \<and> script_procs w' k =
                Some (Treating a b (clock w) stype pool
                       (clock w + e / mu_actual (1 / mean) (res_count (beds w))))
            \<and> (stype, pool, mean) =
                (if k \<in> set (users (staff_senior w))
                 then (''Senior'', Staff_Senior, AVG_TREATMENT_TIME_SENIOR_MINUTES)
                 else (''Junior'', Staff_Junior, AVG_TREATMENT_TIME_JUNIOR_MINUTES))
            \<and> k \<in> set (users (pool_of w pool)))"
  proof
    assume h: "script_procs w k = Some (AwaitStaff a b)
      \<and> (k \<in> set (users (staff_senior w)) \<or> k \<in> set (users (staff_junior w))) \<and> 0 \<le> e"
    with script_staff_step[of w k a b e] obtain w' stype pool mean where
      st: "script_step w (Staff_Assigned k e) = Some (Inr w')"
      and pr: "script_procs w' k =
                Some (Treating a b (clock w) stype pool
                       (clock w + e / mu_actual (1 / mean) (res_count (beds w))))"
      and ty: "(stype, pool, mean) =
                (if k \<in> set (users (staff_senior w))
                 then (''Senior'', Staff_Senior, AVG_TREATMENT_TIME_SENIOR_MINUTES)
                 else (''Junior'', Staff_Junior, AVG_TREATMENT_TIME_JUNIOR_MINUTES))"
      by blast
    from ty h have "k \<in> set (users (pool_of w pool))"
      by (auto simp: pool_of_def split: if_splits)
    with st pr ty show "\<exists>w' stype pool mean.
            script_step w (Staff_Assigned k e) = Some (Inr w')
            \<and> script_procs w' k =
                Some (Treating a b (clock w) stype pool
                       (clock w + e / mu_actual (1 / mean) (res_count (beds w))))
            \<and> (stype, pool, mean) =
                (if k \<in> set (users (staff_senior w))
                 then (''Senior'', Staff_Senior, AVG_TREATMENT_TIME_SENIOR_MINUTES)
                 else (''Junior'', Staff_Junior, AVG_TREATMENT_TIME_JUNIOR_MINUTES))
            \<and> k \<in> set (users (pool_of w pool))"
      by blast
  qed
  have s2: "script_procs w2 k = Some (Treating a b c stype pool due)
       \<and> clock w2 \<le> due \<and> due < SIM_TIME_MINUTES
     \<longrightarrow> (\<exists>w'. script_step w2 (Treatment_End k) = Some (Inr w')
            \<and> script_log w' = script_log w2 @
                [\<lparr>name = patient_name k, arrival_time = a, waited_for_bed = Some (b - a),
                  waited_for_staff = Some (c - b), treatment_duration = Some (due - c),
                  staff_type = Some stype, status = ''Discharged''\<rparr>])"
    using script_discharge_step[of w2 k a b c stype pool due] by blast
  have d3: "scenario p = Experience_Based
       \<and> 0 \<le> senior_service_days p \<and> 0 \<le> junior_service_days p
     \<longrightarrow> get_treatment_time p h u e =
           Inr ((if u < senior_staff_mix p / 100 then senior_service_days p
                 else junior_service_days p) * MINS_IN_DAY * e)"
    using experience_time[of p h u e] by blast
  have d4: "patient_log (patient_done k a wt tt h) =
       patient_log h @ [discharged_record (patient_name k) a wt tt (now h)]"
    by (simp add: patient_done_def)
  have d5: "TreatedBy (discharged_record nm a wt tt t) = ''Staff''"
    by (simp add: discharged_record_def)
  from s1 s2 d3 d4 d5 show ?thesis by blast
qed

theorem staff_type_and_ideal_rate_counterexample:
  "map_option (map_sum id (\<lambda>h. map (\<lambda>r. (TreatmentTime r, TreatedBy r)) (patient_log h)))
     (run_events (example_params Experience_Based) (fresh_ward (example_params Experience_Based))
        [Arrival 100, StaffGranted 1 (9 / 10) (1 / 10), TreatmentDone 1])
     = Some (Inr [(Some 720, ''Staff'')])
   \<and> map_option (map_sum id (\<lambda>h. map (\<lambda>r. (TreatmentTime r, TreatedBy r)) (patient_log h)))
     (run_events (example_params Experience_Based) (fresh_ward (example_params Experience_Based))
        [Arrival 100, StaffGranted 1 (1 / 10) (1 / 10), TreatmentDone 1])
     = Some (Inr [(Some 432, ''Staff'')])"
  by (simp add: engine_defs resource_defs)

theorem staff_type_and_ideal_rate_witness:
  "script_procs waiting_script 1 = Some (AwaitStaff 100 100)
   \<and> 1 \<in> set (users (staff_senior waiting_script))
   \<and> (0::real) \<le> 1 / 10
   \<and> (\<exists>w'. script_step waiting_script (Staff_Assigned 1 (1 / 10)) = Some (Inr w')
          \<and> script_procs w' 1 = Some (Treating 100 100 100 ''Senior'' Staff_Senior 460))
   \<and> script_procs in_treatment_script 1 = Some (Treating 100 100 100 ''Senior'' Staff_Senior 460)
   \<and> clock in_treatment_script \<le> 460 \<and> 460 < SIM_TIME_MINUTES
   \<and> (\<exists>w'. script_step in_treatment_script (Treatment_End 1) = Some (Inr w')
          \<and> map staff_type (script_log w') = [Some ''Senior''])
   \<and> scenario (example_params Experience_Based) = Experience_Based
   \<and> 0 \<le> senior_service_days (example_params Experience_Based)
   \<and> 0 \<le> junior_service_days (example_params Experience_Based)
   \<and> get_treatment_time (example_params Experience_Based)
        (fresh_ward (example_params Experience_Based)) (9 / 10) (1 / 10) = Inr 720"
proof -
  note t = staff_type_and_ideal_rate [where w = waiting_script and k = 1 and a = 100
      and b = 100 and e = "1 / 10" and ?w2.0 = in_treatment_script and c = 100
      and stype = "''Senior''" and pool = Staff_Senior and due = 460
      and p = "example_params Experience_Based"
      and h = "fresh_ward (example_params Experience_Based)" and u = "9 / 10"]
  have w: "script_procs waiting_script 1 = Some (AwaitStaff 100 100)"
      "1 \<in> set (users (staff_senior waiting_script))" "(0::real) \<le> 1 / 10"
    by (simp_all add: waiting_script_def)
  have i: "script_procs in_treatment_script 1 = Some (Treating 100 100 100 ''Senior'' Staff_Senior 460)"
      "clock in_treatment_script \<le> 460" "460 < SIM_TIME_MINUTES"
    by (simp_all add: in_treatment_script_def waiting_script_def SIM_TIME_MINUTES_def)
  have p: "scenario (example_params Experience_Based) = Experience_Based"
      "0 \<le> senior_service_days (example_params Experience_Based)"
      "0 \<le> junior_service_days (example_params Experience_Based)"
    by (simp_all add: example_params_def)
  from t w obtain w' stype pool mean where
      "script_step waiting_script (Staff_Assigned 1 (1 / 10)) = Some (Inr w')"
      "script_procs w' 1 =
         Some (Treating 100 100 (clock waiting_script) stype pool
                (clock waiting_script
                   + (1 / 10) / mu_actual (1 / mean) (res_count (beds waiting_script))))"
      "(stype, pool, mean) =
         (if 1 \<in> set (users (staff_senior waiting_script))
          then (''Senior'', Staff_Senior, AVG_TREATMENT_TIME_SENIOR_MINUTES)
          else (''Junior'', Staff_Junior, AVG_TREATMENT_TIME_JUNIOR_MINUTES))"
    by blast
  then have r1: "\<exists>w'. script_step waiting_script (Staff_Assigned 1 (1 / 10)) = Some (Inr w')
          \<and> script_procs w' 1 = Some (Treating 100 100 100 ''Senior'' Staff_Senior 460)"
    by (auto simp: waiting_script_def script_defs resource_defs)
  from t i obtain w'' where
      "script_step in_treatment_script (Treatment_End 1) = Some (Inr w'')"
      "script_log w'' = script_log in_treatment_script @
                [\<lparr>name = patient_name 1, arrival_time = 100, waited_for_bed = Some (100 - 100),
                  waited_for_staff = Some (100 - 100), treatment_duration = Some (460 - 100),
                  staff_type = Some ''Senior'', status = ''Discharged''\<rparr>]"
    by blast
  then have r2: "\<exists>w'. script_step in_treatment_script (Treatment_End 1) = Some (Inr w')
          \<and> map staff_type (script_log w') = [Some ''Senior'']"
    by (auto simp: in_treatment_script_def waiting_script_def)
  from t p have "get_treatment_time (example_params Experience_Based)
        (fresh_ward (example_params Experience_Based)) (9 / 10) (1 / 10)
       = Inr ((if 9 / 10 < senior_staff_mix (example_params Experience_Based) / 100
               then senior_service_days (example_params Experience_Based)
               else junior_service_days (example_params Experience_Based)) * MINS_IN_DAY * (1 / 10))"
    by blast
  then have r3: "get_treatment_time (example_params Experience_Based)
        (fresh_ward (example_params Experience_Based)) (9 / 10) (1 / 10) = Inr 720"
    by (simp add: example_params_def MINS_IN_DAY_def)
  from w i p r1 r2 r3 show ?thesis by blast
qed




end
